theory Spec2Isabelle
  imports Main
begin

section \<open>Prompt preprocessing: \<^verbatim>\<open>aphrodite/inputs/preprocess.py\<close>\<close>

text \<open>
  A shallow embedding of the class \<^verbatim>\<open>InputPreprocessor\<close>. Every method is a HOL
  function that takes the object (\<open>self\<close>) first. A method that can raise returns
  \<open>error + 'a\<close>, with \<open>Inl\<close> for the exception. Awaiting a coroutine is modelled
  by its returned value, so each \<^verbatim>\<open>async def\<close> is a function of its own, written out
  from its own body. Calls to the logger are not part of the model. A method keeps
  its name without the leading underscore; a parameter or local is renamed where a
  field of the same name exists (\<open>ids\<close> for \<^verbatim>\<open>prompt_token_ids\<close>, \<open>text\<close> for
  \<^verbatim>\<open>prompt\<close>, \<open>adapter\<close> for \<^verbatim>\<open>prompt_adapter_request\<close>).
\<close>

subsection \<open>Exceptions\<close>

text \<open>
  One constructor for each place where the module raises:
  \<^item> \<open>TokenizerUnavailable\<close>: the \<^verbatim>\<open>ValueError\<close> of \<^verbatim>\<open>get_tokenizer_group\<close>;
  \<^item> \<open>MissingBosToken\<close>: \<^verbatim>\<open>assert bos_token_id is not None\<close>;
  \<^item> \<open>MissingDecoderStartToken\<close>: \<^verbatim>\<open>assert decoder_start_token_id is not None\<close>;
  \<^item> \<open>UnsupportedMultiModalDecoderInput\<close>: the \<^verbatim>\<open>ValueError\<close> of
    \<^verbatim>\<open>_build_enc_dec_llm_inputs\<close>;
  \<^item> \<open>IncompatiblePromptShape\<close>: the \<^verbatim>\<open>ValueError\<close> of \<^verbatim>\<open>preprocess\<close> and
    \<^verbatim>\<open>preprocess_async\<close>;
  \<^item> \<open>UnboundLocalError\<close>: Python's error for reading a local variable that no
    executed statement has assigned, with the variable's name;
  \<^item> \<open>KeyError\<close>: Python's error for subscripting a dict with a key it lacks.
\<close>

datatype error =
    TokenizerUnavailable
  | MissingBosToken
  | MissingDecoderStartToken
  | UnsupportedMultiModalDecoderInput
  | IncompatiblePromptShape
  | UnboundLocalError string
  | KeyError string

subsection \<open>Prompts\<close>

text \<open>
  \<^verbatim>\<open>mm_processor_kwargs\<close> is a \<^verbatim>\<open>Dict[str, Any]\<close>: an association list, \<open>[]\<close> for
  \<^verbatim>\<open>{}\<close>. The multi-modal payload (\<^verbatim>\<open>MultiModalDataDict\<close>) is only ever passed on or
  compared with \<^verbatim>\<open>None\<close>, so it is a type parameter \<open>'m\<close>.
\<close>

type_synonym 'v mm_kwargs = "(string \<times> 'v) list"

text \<open>
  Modelled from the spec: the prompt types of \<^verbatim>\<open>aphrodite/inputs/data.py\<close> and the
  classifiers \<^verbatim>\<open>parse_singleton_prompt\<close> and \<^verbatim>\<open>is_explicit_encoder_decoder_prompt\<close> of
  \<^verbatim>\<open>aphrodite/inputs/parse.py\<close>, which are not among the sources. The spec gives
  a singleton prompt as a tagged union of a plain string, token ids with an optional
  payload and optional processor options, and a text with the same two options; and an
  explicit encoder/decoder prompt as an encoder singleton, a decoder singleton or
  \<^verbatim>\<open>None\<close>, and processor options that may be missing. The classifiers return the tag:
  \<^verbatim>\<open>is_explicit_encoder_decoder_prompt\<close> holds of the constructor
  \<open>ExplicitEncoderDecoder\<close> alone, \<^verbatim>\<open>parsed["type"]\<close> is \<^verbatim>\<open>"str"\<close>, \<^verbatim>\<open>"tokens"\<close> or
  \<^verbatim>\<open>"text"\<close> for the three singleton constructors in this order, and
  \<^verbatim>\<open>parsed["content"]\<close> is the prompt itself. An optional
  key of a prompt mapping is an \<open>option\<close>: \<open>None\<close> is what \<^verbatim>\<open>.get(key)\<close> returns for
  a missing key. The arguments of \<open>ExplicitEncoderDecoder\<close> are the keys
  \<^verbatim>\<open>encoder_prompt\<close>, \<^verbatim>\<open>decoder_prompt\<close> and \<^verbatim>\<open>mm_processor_kwargs\<close>.
\<close>

datatype ('m, 'v) singleton_prompt =
    PlainText string
  | TokenIds "int list" "'m option" "'v mm_kwargs option"
  | TextWithPayload string "'m option" "'v mm_kwargs option"

datatype ('m, 'v) prompt_type =
    Singleton "('m, 'v) singleton_prompt"
  | ExplicitEncoderDecoder
      "('m, 'v) singleton_prompt"
      "('m, 'v) singleton_prompt option"
      "'v mm_kwargs option"

subsection \<open>Collaborators\<close>

text \<open>
  The tokenizer group (\<^verbatim>\<open>BaseTokenizerGroup\<close>), the model configuration
  (\<^verbatim>\<open>ModelConfig\<close>) and the two adapter requests are declared outside the sources.
  They are records of the attributes and methods this module reads. The arguments of
  \<open>encode\<close> are \<^verbatim>\<open>request_id\<close>, \<^verbatim>\<open>prompt\<close> and \<^verbatim>\<open>lora_request\<close>. A LoRA request is
  only passed on, so it is a type parameter \<open>'l\<close>. The attribute
  \<^verbatim>\<open>model_config.is_encoder_decoder_model\<close> is the field
  \<open>config_is_encoder_decoder_model\<close>, since the method of the preprocessor has the
  attribute's name.
\<close>

record lora_tokenizer =
  bos_token_id :: "int option"
  eos_token_id :: "int option"

record 'l tokenizer_group =
  get_lora_tokenizer :: "'l option \<Rightarrow> lora_tokenizer"
  encode :: "string \<Rightarrow> string \<Rightarrow> 'l option \<Rightarrow> int list"
  encode_async :: "string \<Rightarrow> string \<Rightarrow> 'l option \<Rightarrow> int list"

record pretrained_config =
  decoder_start_token_id :: "int option"

record model_config =
  config_is_encoder_decoder_model :: bool
  hf_config :: "pretrained_config option"

record prompt_adapter_request =
  prompt_adapter_num_virtual_tokens :: int

record 'l input_preprocessor =
  model_config :: model_config
  tokenizer :: "'l tokenizer_group option"

subsection \<open>Results\<close>

text \<open>
  \<^verbatim>\<open>PromptComponents\<close> and \<^verbatim>\<open>DecoderPromptComponents\<close> are the tuples of the source:
  text, token ids, payload, processor options. Only the decoder's token ids may be
  \<^verbatim>\<open>None\<close>.
\<close>

type_synonym ('m, 'v) prompt_components =
  "string option \<times> int list \<times> 'm option \<times> 'v mm_kwargs option"

type_synonym ('m, 'v) decoder_prompt_components =
  "string option \<times> int list option \<times> 'm option \<times> 'v mm_kwargs option"

text \<open>
  \<^verbatim>\<open>Union[DecoderOnlyInputs, EncoderDecoderInputs]\<close>: the arguments of each constructor
  are the keyword arguments of the source's constructor call, in its order. The first
  three keys are common to both shapes. The key \<^verbatim>\<open>mm_processor_kwargs\<close> holds an
  optional dict in decoder-only inputs and a dict in encoder/decoder inputs, where it
  is the selector \<open>enc_dec_mm_processor_kwargs\<close>.
\<close>

datatype ('m, 'v) llm_inputs =
    DecoderOnlyInputs
      (prompt_token_ids: "int list")
      (prompt: "string option")
      (multi_modal_data: "'m option")
      (mm_processor_kwargs: "'v mm_kwargs option")
  | EncoderDecoderInputs
      (prompt_token_ids: "int list")
      (prompt: "string option")
      (multi_modal_data: "'m option")
      (enc_dec_mm_processor_kwargs: "'v mm_kwargs")
      (encoder_prompt_token_ids: "int list")
      (encoder_prompt: "string option")
      (encoder_multi_modal_data: "'m option")

subsection \<open>Special token ids\<close>

definition is_encoder_decoder_model :: "'l input_preprocessor \<Rightarrow> bool" where
  "is_encoder_decoder_model self = config_is_encoder_decoder_model (model_config self)"

definition get_tokenizer_group :: "'l input_preprocessor \<Rightarrow> error + 'l tokenizer_group" where
  "get_tokenizer_group self =
     (case tokenizer self of
        None \<Rightarrow> Inl TokenizerUnavailable
      | Some t \<Rightarrow> Inr t)"

definition get_bos_token_id :: "'l input_preprocessor \<Rightarrow> 'l option \<Rightarrow> int option" where
  "get_bos_token_id self lora_request =
     (case tokenizer self of
        None \<Rightarrow> None
      | Some t \<Rightarrow> bos_token_id (get_lora_tokenizer t lora_request))"

definition get_eos_token_id :: "'l input_preprocessor \<Rightarrow> 'l option \<Rightarrow> int option" where
  "get_eos_token_id self lora_request =
     (case tokenizer self of
        None \<Rightarrow> None
      | Some t \<Rightarrow> eos_token_id (get_lora_tokenizer t lora_request))"

text \<open>
  \<^verbatim>\<open>get_bos_token_id()\<close> is called with no argument here: its \<^verbatim>\<open>lora_request\<close> is the
  default \<^verbatim>\<open>None\<close>.
\<close>

definition get_decoder_start_token_id :: "'l input_preprocessor \<Rightarrow> int option" where
  "get_decoder_start_token_id self =
     (if \<not> is_encoder_decoder_model self then None
      else case hf_config (model_config self) of
             None \<Rightarrow> None
           | Some hf \<Rightarrow>
               (case decoder_start_token_id hf of
                  None \<Rightarrow> get_bos_token_id self None
                | Some dec_start_token_id \<Rightarrow> Some dec_start_token_id))"

definition get_default_enc_dec_decoder_prompt :: "'l input_preprocessor \<Rightarrow> error + int list" where
  "get_default_enc_dec_decoder_prompt self =
     (case get_bos_token_id self None of
        None \<Rightarrow> Inl MissingBosToken
      | Some bos \<Rightarrow> Inr [bos])"

text \<open>
  The decoder start token is resolved and asserted first, then a missing decoder prompt
  is replaced by the default one. In \<^verbatim>\<open>len(ids) == 0 or ids[0] != start\<close> the index is
  only read when the list is not empty.
\<close>

definition prepare_decoder_input_ids_for_generation ::
  "'l input_preprocessor \<Rightarrow> int list option \<Rightarrow> bool \<Rightarrow> error + int list" where
  "prepare_decoder_input_ids_for_generation self decoder_input_ids force_bos =
     (case get_decoder_start_token_id self of
        None \<Rightarrow> Inl MissingDecoderStartToken
      | Some start \<Rightarrow>
          (case (case decoder_input_ids of
                   None \<Rightarrow> get_default_enc_dec_decoder_prompt self
                 | Some ids \<Rightarrow> Inr ids) of
             Inl e \<Rightarrow> Inl e
           | Inr ids \<Rightarrow>
               Inr (if force_bos \<and> (length ids = 0 \<or> ids ! 0 \<noteq> start)
                    then [start] @ ids
                    else ids)))"

subsection \<open>Adapter tokens and tokenization\<close>

text \<open>
  A \<^verbatim>\<open>PromptAdapterRequest\<close> object is true in a condition whenever it is not
  \<^verbatim>\<open>None\<close>. Python's \<^verbatim>\<open>[0] * n\<close> is the empty list for a negative \<open>n\<close>, as
  \<open>replicate (nat n) 0\<close> is.
\<close>

definition apply_prompt_adapter :: "int list \<Rightarrow> prompt_adapter_request option \<Rightarrow> int list" where
  "apply_prompt_adapter ids adapter =
     (case adapter of
        None \<Rightarrow> ids
      | Some r \<Rightarrow> replicate (nat (prompt_adapter_num_virtual_tokens r)) 0 @ ids)"

definition tokenize_prompt ::
  "'l input_preprocessor \<Rightarrow> string \<Rightarrow> string \<Rightarrow> 'l option \<Rightarrow> error + int list" where
  "tokenize_prompt self text request_id lora_request =
     (case get_tokenizer_group self of
        Inl e \<Rightarrow> Inl e
      | Inr t \<Rightarrow> Inr (encode t request_id text lora_request))"

definition tokenize_prompt_async ::
  "'l input_preprocessor \<Rightarrow> string \<Rightarrow> string \<Rightarrow> 'l option \<Rightarrow> error + int list" where
  "tokenize_prompt_async self text request_id lora_request =
     (case get_tokenizer_group self of
        Inl e \<Rightarrow> Inl e
      | Inr t \<Rightarrow> Inr (encode_async t request_id text lora_request))"

subsection \<open>Extraction of prompt components\<close>

fun extract_prompt_components ::
  "'l input_preprocessor \<Rightarrow> ('m, 'v) singleton_prompt \<Rightarrow> string \<Rightarrow> 'l option
     \<Rightarrow> error + ('m, 'v) prompt_components" where
  "extract_prompt_components self (PlainText content) request_id lora_request =
     (case tokenize_prompt self content request_id lora_request of
        Inl e \<Rightarrow> Inl e
      | Inr ids \<Rightarrow> Inr (Some content, ids, None, None))"
| "extract_prompt_components self (TokenIds ids mm_data kwargs) request_id lora_request =
     Inr (None, ids, mm_data, kwargs)"
| "extract_prompt_components self (TextWithPayload text mm_data kwargs) request_id lora_request =
     (case tokenize_prompt self text request_id lora_request of
        Inl e \<Rightarrow> Inl e
      | Inr ids \<Rightarrow> Inr (Some text, ids, mm_data, kwargs))"

fun extract_prompt_components_async ::
  "'l input_preprocessor \<Rightarrow> ('m, 'v) singleton_prompt \<Rightarrow> string \<Rightarrow> 'l option
     \<Rightarrow> error + ('m, 'v) prompt_components" where
  "extract_prompt_components_async self (PlainText content) request_id lora_request =
     (case tokenize_prompt_async self content request_id lora_request of
        Inl e \<Rightarrow> Inl e
      | Inr ids \<Rightarrow> Inr (Some content, ids, None, None))"
| "extract_prompt_components_async self (TokenIds ids mm_data kwargs) request_id lora_request =
     Inr (None, ids, mm_data, kwargs)"
| "extract_prompt_components_async self (TextWithPayload text mm_data kwargs) request_id lora_request =
     (case tokenize_prompt_async self text request_id lora_request of
        Inl e \<Rightarrow> Inl e
      | Inr ids \<Rightarrow> Inr (Some text, ids, mm_data, kwargs))"

subsection \<open>Sequencing\<close>

text \<open>
  \<open>and_then m f\<close> runs \<open>f\<close> on the value of \<open>m\<close>, or propagates the exception
  of \<open>m\<close>. \<open>read_local\<close> reads a local variable that may be unassigned, and
  \<open>subscript\<close> is \<^verbatim>\<open>d[key]\<close> for a key that may be missing.
\<close>

definition and_then :: "error + 'a \<Rightarrow> ('a \<Rightarrow> error + 'b) \<Rightarrow> error + 'b" where
  "and_then m f = (case m of Inl e \<Rightarrow> Inl e | Inr x \<Rightarrow> f x)"

definition read_local :: "string \<Rightarrow> 'a option \<Rightarrow> error + 'a" where
  "read_local name v = (case v of None \<Rightarrow> Inl (UnboundLocalError name) | Some x \<Rightarrow> Inr x)"

definition subscript :: "string \<Rightarrow> 'a option \<Rightarrow> error + 'a" where
  "subscript key v = (case v of None \<Rightarrow> Inl (KeyError key) | Some x \<Rightarrow> Inr x)"

subsection \<open>Encoder/decoder models\<close>

definition build_enc_dec_llm_inputs ::
  "'l input_preprocessor \<Rightarrow> ('m, 'v) prompt_components \<Rightarrow> ('m, 'v) decoder_prompt_components
     \<Rightarrow> 'v mm_kwargs \<Rightarrow> error + ('m, 'v) llm_inputs" where
  "build_enc_dec_llm_inputs self encoder_comps decoder_comps kwargs =
     (case encoder_comps of (encoder_text, encoder_prompt_ids, encoder_mm_data, _) \<Rightarrow>
      case decoder_comps of (decoder_text, decoder_prompt_ids, decoder_mm_data, _) \<Rightarrow>
        if decoder_mm_data \<noteq> None then Inl UnsupportedMultiModalDecoderInput
        else
          and_then
            (prepare_decoder_input_ids_for_generation self decoder_prompt_ids
               (encoder_mm_data = None \<and> decoder_mm_data = None))
            (\<lambda>ids. Inr (EncoderDecoderInputs ids decoder_text decoder_mm_data kwargs
                         encoder_prompt_ids encoder_text encoder_mm_data)))"

text \<open>
  \<open>no_decoder_comps\<close> is the tuple \<^verbatim>\<open>None, None, None, None\<close>;
  \<open>as_decoder_comps\<close> reads extracted \<^verbatim>\<open>PromptComponents\<close> at the type
  \<^verbatim>\<open>DecoderPromptComponents\<close>.
\<close>

definition no_decoder_comps :: "('m, 'v) decoder_prompt_components" where
  "no_decoder_comps = (None, None, None, None)"

definition as_decoder_comps ::
  "('m, 'v) prompt_components \<Rightarrow> ('m, 'v) decoder_prompt_components" where
  "as_decoder_comps comps = (case comps of (text, ids, mm_data, kwargs) \<Rightarrow> (text, Some ids, mm_data, kwargs))"

text \<open>
  The \<^verbatim>\<open>if\<close>/\<^verbatim>\<open>else\<close> assigns the three locals \<^verbatim>\<open>encoder_comps\<close>,
  \<^verbatim>\<open>decoder_comps\<close> and \<^verbatim>\<open>mm_processor_kwargs\<close>; the \<^verbatim>\<open>return\<close> statement reads
  them. Extraction is called without \<^verbatim>\<open>lora_request\<close>, whose default is \<^verbatim>\<open>None\<close>.
  \<^verbatim>\<open>prompt.get("mm_processor_kwargs", {})\<close> is the field, or \<^verbatim>\<open>{}\<close> when the key is
  missing; \<^verbatim>\<open>encoder_comps[-1]\<close> is the last component.
\<close>

definition process_encoder_decoder_prompt ::
  "'l input_preprocessor \<Rightarrow> ('m, 'v) prompt_type \<Rightarrow> string \<Rightarrow> error + ('m, 'v) llm_inputs" where
  "process_encoder_decoder_prompt self p request_id =
     and_then
       (case p of
          ExplicitEncoderDecoder encoder_input decoder_input pair_kwargs \<Rightarrow>
            and_then (extract_prompt_components self encoder_input request_id None)
              (\<lambda>encoder_comps.
            and_then
              (case decoder_input of
                 None \<Rightarrow> Inr no_decoder_comps
               | Some d \<Rightarrow>
                   and_then (extract_prompt_components self d request_id None)
                     (\<lambda>comps. Inr (as_decoder_comps comps)))
              (\<lambda>decoder_comps.
            Inr (encoder_comps, decoder_comps,
                 (case pair_kwargs of None \<Rightarrow> [] | Some k \<Rightarrow> k))))
        | Singleton sp \<Rightarrow>
            and_then (extract_prompt_components self sp request_id None)
              (\<lambda>encoder_comps.
            Inr (encoder_comps, no_decoder_comps,
                 (case snd (snd (snd encoder_comps)) of None \<Rightarrow> [] | Some k \<Rightarrow> k))))
       (\<lambda>(encoder_comps, decoder_comps, kwargs).
          build_enc_dec_llm_inputs self encoder_comps decoder_comps kwargs)"

text \<open>
  In the coroutine the local \<^verbatim>\<open>mm_processor_kwargs\<close> is assigned in the branch of an
  explicit pair with a decoder prompt (by the subscript
  \<^verbatim>\<open>prompt["mm_processor_kwargs"]\<close>) and in the branch of a singleton prompt; the
  branch of an explicit pair whose decoder prompt is \<^verbatim>\<open>None\<close> leaves it unassigned. The
  third component below is the local: \<open>None\<close> while unassigned.
  \<^verbatim>\<open>asyncio.gather(encoder_task, decoder_task)\<close> returns both results in the order of
  its arguments, or raises the first exception. Extraction raises no other exception
  than \<open>TokenizerUnavailable\<close>, so the order in which two failing tasks are
  reported makes no difference, and the encoder's is taken first.
\<close>

definition process_encoder_decoder_prompt_async ::
  "'l input_preprocessor \<Rightarrow> ('m, 'v) prompt_type \<Rightarrow> string \<Rightarrow> error + ('m, 'v) llm_inputs" where
  "process_encoder_decoder_prompt_async self p request_id =
     and_then
       (case p of
          ExplicitEncoderDecoder encoder_input decoder_input pair_kwargs \<Rightarrow>
            (case decoder_input of
               None \<Rightarrow>
                 and_then (extract_prompt_components_async self encoder_input request_id None)
                   (\<lambda>encoder_comps.
                 Inr (encoder_comps, no_decoder_comps, None))
             | Some d \<Rightarrow>
                 and_then (extract_prompt_components_async self encoder_input request_id None)
                   (\<lambda>encoder_comps.
                 and_then (extract_prompt_components_async self d request_id None)
                   (\<lambda>comps.
                 and_then (subscript ''mm_processor_kwargs'' pair_kwargs)
                   (\<lambda>k.
                 Inr (encoder_comps, as_decoder_comps comps, Some k)))))
        | Singleton sp \<Rightarrow>
            and_then (extract_prompt_components_async self sp request_id None)
              (\<lambda>encoder_comps.
            Inr (encoder_comps, no_decoder_comps,
                 Some (case snd (snd (snd encoder_comps)) of None \<Rightarrow> [] | Some k \<Rightarrow> k))))
       (\<lambda>(encoder_comps, decoder_comps, local_kwargs).
          and_then (read_local ''mm_processor_kwargs'' local_kwargs)
            (\<lambda>kwargs.
          build_enc_dec_llm_inputs self encoder_comps decoder_comps kwargs))"

subsection \<open>Decoder-only models\<close>

definition build_decoder_only_llm_inputs ::
  "('m, 'v) prompt_components \<Rightarrow> prompt_adapter_request option \<Rightarrow> ('m, 'v) llm_inputs" where
  "build_decoder_only_llm_inputs prompt_comps adapter =
     (case prompt_comps of (text, ids, mm_data, kwargs) \<Rightarrow>
        DecoderOnlyInputs (apply_prompt_adapter ids adapter) text mm_data kwargs)"

definition process_decoder_only_prompt ::
  "'l input_preprocessor \<Rightarrow> ('m, 'v) singleton_prompt \<Rightarrow> string \<Rightarrow> 'l option
     \<Rightarrow> prompt_adapter_request option \<Rightarrow> error + ('m, 'v) llm_inputs" where
  "process_decoder_only_prompt self sp request_id lora_request adapter =
     and_then (extract_prompt_components self sp request_id lora_request)
       (\<lambda>prompt_comps. Inr (build_decoder_only_llm_inputs prompt_comps adapter))"

definition process_decoder_only_prompt_async ::
  "'l input_preprocessor \<Rightarrow> ('m, 'v) singleton_prompt \<Rightarrow> string \<Rightarrow> 'l option
     \<Rightarrow> prompt_adapter_request option \<Rightarrow> error + ('m, 'v) llm_inputs" where
  "process_decoder_only_prompt_async self sp request_id lora_request adapter =
     and_then (extract_prompt_components_async self sp request_id lora_request)
       (\<lambda>prompt_comps. Inr (build_decoder_only_llm_inputs prompt_comps adapter))"

subsection \<open>Entry points\<close>

text \<open>
  For an encoder/decoder model neither \<^verbatim>\<open>lora_request\<close> nor
  \<^verbatim>\<open>prompt_adapter_request\<close> is passed on. Otherwise an explicit pair is refused and
  a singleton prompt goes the decoder-only way.
\<close>

definition preprocess ::
  "'l input_preprocessor \<Rightarrow> ('m, 'v) prompt_type \<Rightarrow> string \<Rightarrow> 'l option
     \<Rightarrow> prompt_adapter_request option \<Rightarrow> error + ('m, 'v) llm_inputs" where
  "preprocess self p request_id lora_request adapter =
     (if is_encoder_decoder_model self
      then process_encoder_decoder_prompt self p request_id
      else case p of
             ExplicitEncoderDecoder _ _ _ \<Rightarrow> Inl IncompatiblePromptShape
           | Singleton sp \<Rightarrow>
               process_decoder_only_prompt self sp request_id lora_request adapter)"

definition preprocess_async ::
  "'l input_preprocessor \<Rightarrow> ('m, 'v) prompt_type \<Rightarrow> string \<Rightarrow> 'l option
     \<Rightarrow> prompt_adapter_request option \<Rightarrow> error + ('m, 'v) llm_inputs" where
  "preprocess_async self p request_id lora_request adapter =
     (if is_encoder_decoder_model self
      then process_encoder_decoder_prompt_async self p request_id
      else case p of
             ExplicitEncoderDecoder _ _ _ \<Rightarrow> Inl IncompatiblePromptShape
           | Singleton sp \<Rightarrow>
               process_decoder_only_prompt_async self sp request_id lora_request adapter)"

subsection \<open>Example objects\<close>

text \<open>
  A tokenizer group whose LoRA requests are numbers. It encodes a text as its byte
  values, each shifted by the number of the LoRA request if there is one, and its BOS id
  is 0 and its EOS id is 2 for every adapter. The preprocessor around it: \<open>enc_dec\<close>
  says whether the model is an encoder/decoder model, \<open>start\<close> is the configured
  \<^verbatim>\<open>decoder_start_token_id\<close>, and \<open>tok\<close> is the tokenizer group, \<open>None\<close> when
  tokenizer initialization was skipped.
\<close>

definition example_encode :: "string \<Rightarrow> string \<Rightarrow> nat option \<Rightarrow> int list" where
  "example_encode request_id text lora_request =
     map (\<lambda>c. int (of_char c) + (case lora_request of None \<Rightarrow> 0 | Some n \<Rightarrow> int n)) text"

definition example_tokenizer :: "nat tokenizer_group" where
  "example_tokenizer =
     \<lparr>get_lora_tokenizer = (\<lambda>lora_request. \<lparr>bos_token_id = Some 0, eos_token_id = Some 2\<rparr>),
      encode = example_encode,
      encode_async = example_encode\<rparr>"

definition example_preprocessor ::
  "bool \<Rightarrow> int option \<Rightarrow> nat tokenizer_group option \<Rightarrow> nat input_preprocessor" where
  "example_preprocessor enc_dec start tok =
     \<lparr>model_config = \<lparr>config_is_encoder_decoder_model = enc_dec,
                       hf_config = Some \<lparr>decoder_start_token_id = start\<rparr>\<rparr>,
      tokenizer = tok\<rparr>"

section \<open>Properties\<close>

subsection \<open>Sequencing and evaluation lemmas\<close>

lemma and_then_Inl [simp]: "and_then (Inl e) f = Inl e"
  by (simp add: and_then_def)

lemma and_then_Inr [simp]: "and_then (Inr x) f = f x"
  by (simp add: and_then_def)

lemma and_then_eq_Inr: "and_then m f = Inr y \<longleftrightarrow> (\<exists>x. m = Inr x \<and> f x = Inr y)"
  by (cases m) simp_all

lemmas example_defs =
  example_preprocessor_def example_tokenizer_def example_encode_def is_encoder_decoder_model_def
  get_tokenizer_group_def get_bos_token_id_def get_decoder_start_token_id_def

subsection \<open>What a successful encoder/decoder run returns\<close>

lemma build_enc_dec_llm_inputs_eq_Inr:
  "build_enc_dec_llm_inputs self (text, ids, mm, kw) (dtext, dids, dmm, dkw) kwargs = Inr r \<longleftrightarrow>
     dmm = None \<and>
     (\<exists>dec. prepare_decoder_input_ids_for_generation self dids (mm = None) = Inr dec \<and>
        r = EncoderDecoderInputs dec dtext None kwargs ids text mm)"
  by (auto simp: build_enc_dec_llm_inputs_def and_then_eq_Inr)

lemma process_encoder_decoder_prompt_Singleton_Inr:
  "process_encoder_decoder_prompt self (Singleton sp) request_id = Inr r \<longleftrightarrow>
     (\<exists>text ids mm kw dec.
        extract_prompt_components self sp request_id None = Inr (text, ids, mm, kw) \<and>
        prepare_decoder_input_ids_for_generation self None (mm = None) = Inr dec \<and>
        r = EncoderDecoderInputs dec None None (case kw of None \<Rightarrow> [] | Some k \<Rightarrow> k) ids text mm)"
  by (auto simp: process_encoder_decoder_prompt_def and_then_eq_Inr no_decoder_comps_def
      build_enc_dec_llm_inputs_eq_Inr)

lemma process_encoder_decoder_prompt_pair_None_Inr:
  "process_encoder_decoder_prompt self (ExplicitEncoderDecoder enc None pk) request_id = Inr r \<longleftrightarrow>
     (\<exists>text ids mm kw dec.
        extract_prompt_components self enc request_id None = Inr (text, ids, mm, kw) \<and>
        prepare_decoder_input_ids_for_generation self None (mm = None) = Inr dec \<and>
        r = EncoderDecoderInputs dec None None (case pk of None \<Rightarrow> [] | Some k \<Rightarrow> k) ids text mm)"
  by (auto simp: process_encoder_decoder_prompt_def and_then_eq_Inr no_decoder_comps_def
      build_enc_dec_llm_inputs_eq_Inr)

lemma process_encoder_decoder_prompt_pair_Some_Inr:
  "process_encoder_decoder_prompt self (ExplicitEncoderDecoder enc (Some d) pk) request_id = Inr r \<longleftrightarrow>
     (\<exists>text ids mm kw dtext dids dkw dec.
        extract_prompt_components self enc request_id None = Inr (text, ids, mm, kw) \<and>
        extract_prompt_components self d request_id None = Inr (dtext, dids, None, dkw) \<and>
        prepare_decoder_input_ids_for_generation self (Some dids) (mm = None) = Inr dec \<and>
        r = EncoderDecoderInputs dec dtext None (case pk of None \<Rightarrow> [] | Some k \<Rightarrow> k) ids text mm)"
  by (auto simp: process_encoder_decoder_prompt_def and_then_eq_Inr as_decoder_comps_def
      build_enc_dec_llm_inputs_eq_Inr)

lemma prepare_decoder_input_ids_None:
  assumes "get_decoder_start_token_id self = Some s" and "get_bos_token_id self None = Some b"
  shows "prepare_decoder_input_ids_for_generation self None force_bos =
           Inr (if force_bos \<and> b \<noteq> s then [s, b] else [b])"
  using assms
  by (simp add: prepare_decoder_input_ids_for_generation_def get_default_enc_dec_decoder_prompt_def)

lemma prepare_decoder_input_ids_None_Inr:
  "prepare_decoder_input_ids_for_generation self None force_bos = Inr dec \<longleftrightarrow>
     (\<exists>s b. get_decoder_start_token_id self = Some s \<and> get_bos_token_id self None = Some b \<and>
        dec = (if force_bos \<and> b \<noteq> s then [s, b] else [b]))"
  by (auto simp: prepare_decoder_input_ids_for_generation_def get_default_enc_dec_decoder_prompt_def
      split: option.splits)

lemma prepare_decoder_input_ids_None_nonempty:
  "prepare_decoder_input_ids_for_generation self None force_bos = Inr dec \<Longrightarrow> dec \<noteq> []"
  by (auto simp: prepare_decoder_input_ids_None_Inr split: if_splits)

lemma prepare_decoder_input_ids_Some_Inr:
  "prepare_decoder_input_ids_for_generation self (Some d) force_bos = Inr dec \<Longrightarrow>
     dec = d \<or> (\<exists>s. get_decoder_start_token_id self = Some s \<and> dec = s # d)"
  by (auto simp: prepare_decoder_input_ids_for_generation_def split: option.splits if_splits)

subsection \<open>Where the coroutines agree with the blocking methods\<close>

text \<open>
  When \<^verbatim>\<open>encode_async\<close> returns what \<^verbatim>\<open>encode\<close> returns, extraction is the same in
  both forms, and so is preprocessing, except for an encoder/decoder model on an
  explicit pair that has no decoder prompt or no \<^verbatim>\<open>mm_processor_kwargs\<close> key. On a
  pair with no decoder prompt the coroutine never returns a result.
\<close>

lemma extract_prompt_components_async_eq:
  assumes "\<And>t. tokenizer self = Some t \<Longrightarrow> encode_async t = encode t"
  shows "extract_prompt_components_async self sp request_id lora_request
           = extract_prompt_components self sp request_id lora_request"
  using assms
  by (cases sp)
     (simp_all add: tokenize_prompt_def tokenize_prompt_async_def get_tokenizer_group_def
        split: option.splits)

lemma preprocess_async_eq_preprocess:
  assumes agree: "\<And>t. tokenizer self = Some t \<Longrightarrow> encode_async t = encode t"
    and shape: "\<not> is_encoder_decoder_model self \<or> (\<exists>sp. p = Singleton sp)
                \<or> (\<exists>enc d k. p = ExplicitEncoderDecoder enc (Some d) (Some k))"
  shows "preprocess_async self p request_id lora_request adapter
           = preprocess self p request_id lora_request adapter"
proof (cases "is_encoder_decoder_model self")
  case False
  then show ?thesis
    by (simp add: preprocess_def preprocess_async_def process_decoder_only_prompt_def
        process_decoder_only_prompt_async_def extract_prompt_components_async_eq [OF agree]
        split: prompt_type.splits)
next
  case True
  with shape consider sp where "p = Singleton sp"
    | enc d k where "p = ExplicitEncoderDecoder enc (Some d) (Some k)"
    by blast
  then show ?thesis
  proof cases
    case 1
    with True show ?thesis
      by (simp add: preprocess_def preprocess_async_def process_encoder_decoder_prompt_def
          process_encoder_decoder_prompt_async_def extract_prompt_components_async_eq [OF agree]
          read_local_def and_then_def split: sum.splits)
  next
    case 2
    with True show ?thesis
      by (simp add: preprocess_def preprocess_async_def process_encoder_decoder_prompt_def
          process_encoder_decoder_prompt_async_def extract_prompt_components_async_eq [OF agree]
          read_local_def subscript_def and_then_def split: sum.splits)
  qed
qed

lemma preprocess_async_pair_without_decoder:
  assumes "is_encoder_decoder_model self"
  shows "preprocess_async self (ExplicitEncoderDecoder enc None k) request_id lora_request adapter
           = (case extract_prompt_components_async self enc request_id None of
                Inl e \<Rightarrow> Inl e
              | Inr comps \<Rightarrow> Inl (UnboundLocalError ''mm_processor_kwargs''))"
  using assms
  by (simp add: preprocess_async_def process_encoder_decoder_prompt_async_def read_local_def
      and_then_def split: sum.splits)

subsection \<open>The decoder prompt of an encoder/decoder request\<close>

text \<open>
  C3: with \<^verbatim>\<open>force_bos=True\<close>, a decoder token-id sequence \<open>d\<close> and the resolved decoder
  start token id \<open>s\<close>, \<^verbatim>\<open>_prepare_decoder_input_ids_for_generation\<close> returns
  \<open>[s] @ d\<close> when \<open>d\<close> is empty or its first element is not \<open>s\<close>, and \<open>d\<close>
  itself when its first element is \<open>s\<close>. With \<open>s = 5\<close> (the witness) it maps
  \<open>[1, 2]\<close> to \<open>[5, 1, 2]\<close> and leaves \<open>[5, 1, 2]\<close> as it is.
\<close>

theorem prepare_decoder_input_ids_force_bos:
  assumes "get_decoder_start_token_id self = Some s"
  shows "prepare_decoder_input_ids_for_generation self (Some d) True =
           Inr (if d = [] \<or> hd d \<noteq> s then [s] @ d else d)"
  using assms by (cases d) (simp_all add: prepare_decoder_input_ids_for_generation_def)

theorem prepare_decoder_input_ids_force_bos_witness:
  "get_decoder_start_token_id (example_preprocessor True (Some 5) None) = Some 5
   \<and> prepare_decoder_input_ids_for_generation (example_preprocessor True (Some 5) None)
         (Some [1, 2]) True = Inr [5, 1, 2]
   \<and> prepare_decoder_input_ids_for_generation (example_preprocessor True (Some 5) None)
         (Some [5, 1, 2]) True = Inr [5, 1, 2]
   \<and> prepare_decoder_input_ids_for_generation (example_preprocessor True (Some 5) None)
         (Some []) True = Inr [5]"
proof -
  have s: "get_decoder_start_token_id (example_preprocessor True (Some 5) None) = Some 5"
    by (simp add: example_defs)
  show ?thesis
    using s prepare_decoder_input_ids_force_bos [OF s, of "[1, 2]"]
      prepare_decoder_input_ids_force_bos [OF s, of "[5, 1, 2]"]
      prepare_decoder_input_ids_force_bos [OF s, of "[]"]
    by simp
qed

text \<open>
  C5: when the decoder's components carry a multi-modal payload,
  \<^verbatim>\<open>_build_enc_dec_llm_inputs\<close> raises its \<^verbatim>\<open>ValueError\<close> and builds nothing. This
  holds of every preprocessor, also of one whose decoder start token cannot be resolved
  (the witness), where preparing the decoder prompt would have raised first had it been
  run: the check comes before the decoder prompt is prepared.
\<close>

theorem build_enc_dec_rejects_decoder_payload:
  "build_enc_dec_llm_inputs self encoder_comps
     (decoder_text, decoder_ids, Some mm_data, decoder_kwargs) kwargs
     = Inl UnsupportedMultiModalDecoderInput"
  by (cases encoder_comps) (simp add: build_enc_dec_llm_inputs_def)

theorem build_enc_dec_rejects_decoder_payload_witness:
  "prepare_decoder_input_ids_for_generation (example_preprocessor True None None)
     (Some [1, 2]) True = Inl MissingDecoderStartToken
   \<and> build_enc_dec_llm_inputs (example_preprocessor True None None)
         (None, [7, 8], None :: unit option, None :: unit mm_kwargs option)
         (None, Some [1, 2], Some (), None) []
       = Inl UnsupportedMultiModalDecoderInput"
  using build_enc_dec_rejects_decoder_payload
    [of "example_preprocessor True None None"
        "(None, [7, 8], None :: unit option, None :: unit mm_kwargs option)"
        None "Some [1, 2]" "()" None "[]"]
  by (simp add: example_defs prepare_decoder_input_ids_for_generation_def)

subsection \<open>Adapter tokens\<close>

text \<open>
  C8: \<^verbatim>\<open>_apply_prompt_adapter\<close> returns a list for every argument (it has no failing
  branch). With a prompt adapter of virtual-token count \<open>N\<close> the result is \<open>N\<close>
  zeros followed by the token ids; with no prompt adapter it is the token ids. So a
  count of zero changes nothing, and the decoder-only inputs built from the token ids
  \<open>[7, 8]\<close> with a count of 3 hold \<open>[0, 0, 0, 7, 8]\<close>.
\<close>

theorem apply_prompt_adapter_splice:
  "apply_prompt_adapter ids (Some r)
     = replicate (nat (prompt_adapter_num_virtual_tokens r)) 0 @ ids
   \<and> apply_prompt_adapter ids None = ids
   \<and> apply_prompt_adapter ids (Some \<lparr>prompt_adapter_num_virtual_tokens = 0\<rparr>) = ids
   \<and> build_decoder_only_llm_inputs (text, [7, 8], mm_data, kwargs)
        (Some \<lparr>prompt_adapter_num_virtual_tokens = 3\<rparr>)
      = DecoderOnlyInputs [0, 0, 0, 7, 8] text mm_data kwargs"
  by (simp add: apply_prompt_adapter_def build_decoder_only_llm_inputs_def numeral_3_eq_3)

subsection \<open>Extraction\<close>

text \<open>
  C6: with no tokenizer (tokenizer initialization skipped), extracting the components
  of a plain string or of a text prompt raises the \<^verbatim>\<open>ValueError\<close> of
  \<^verbatim>\<open>get_tokenizer_group\<close>, whatever the text, in the blocking method and in the
  coroutine.
\<close>

theorem extract_text_without_tokenizer:
  assumes "tokenizer self = None"
  shows "extract_prompt_components self (PlainText text) request_id lora_request
           = Inl TokenizerUnavailable
       \<and> extract_prompt_components self (TextWithPayload text mm_data kwargs)
           request_id lora_request = Inl TokenizerUnavailable
       \<and> extract_prompt_components_async self (PlainText text) request_id lora_request
           = Inl TokenizerUnavailable
       \<and> extract_prompt_components_async self (TextWithPayload text mm_data kwargs)
           request_id lora_request = Inl TokenizerUnavailable"
  using assms
  by (simp add: tokenize_prompt_def tokenize_prompt_async_def get_tokenizer_group_def)

theorem extract_text_without_tokenizer_witness:
  "tokenizer (example_preprocessor False None None) = None
   \<and> extract_prompt_components (example_preprocessor False None None)
         (PlainText ''ab'' :: (unit, unit) singleton_prompt) ''r'' None
       = Inl TokenizerUnavailable
   \<and> extract_prompt_components (example_preprocessor False None None)
         (TextWithPayload ''ab'' (Some ()) (Some [(''k'', ())])) ''r'' (Some 1)
       = Inl TokenizerUnavailable
   \<and> extract_prompt_components_async (example_preprocessor False None None)
         (PlainText ''ab'' :: (unit, unit) singleton_prompt) ''r'' None
       = Inl TokenizerUnavailable
   \<and> extract_prompt_components_async (example_preprocessor False None None)
         (TextWithPayload ''ab'' (Some ()) (Some [(''k'', ())])) ''r'' (Some 1)
       = Inl TokenizerUnavailable"
proof -
  have h: "tokenizer (example_preprocessor False None None) = None"
    by (simp add: example_preprocessor_def)
  have a: "extract_prompt_components (example_preprocessor False None None)
             (PlainText ''ab'' :: (unit, unit) singleton_prompt) ''r'' None
           = Inl TokenizerUnavailable
         \<and> extract_prompt_components_async (example_preprocessor False None None)
             (PlainText ''ab'' :: (unit, unit) singleton_prompt) ''r'' None
           = Inl TokenizerUnavailable"
    using extract_text_without_tokenizer [OF h] by blast
  have b: "extract_prompt_components (example_preprocessor False None None)
             (TextWithPayload ''ab'' (Some ()) (Some [(''k'', ())])) ''r'' (Some 1)
           = Inl TokenizerUnavailable
         \<and> extract_prompt_components_async (example_preprocessor False None None)
             (TextWithPayload ''ab'' (Some ()) (Some [(''k'', ())])) ''r'' (Some 1)
           = Inl TokenizerUnavailable"
    using extract_text_without_tokenizer [OF h] by blast
  from h a b show ?thesis by blast
qed

text \<open>
  C7: for a prompt of token ids \<open>ids\<close>, extraction returns \<open>ids\<close> itself, no text,
  and the payload and the processor options of the prompt as they are. The result is
  the same for every preprocessor: no tokenizer group is asked for and nothing is
  encoded, so extraction succeeds also with no tokenizer (the witness).
\<close>

theorem extract_token_ids_passthrough:
  "extract_prompt_components self (TokenIds ids mm_data kwargs) request_id lora_request
     = Inr (None, ids, mm_data, kwargs)
   \<and> extract_prompt_components_async self (TokenIds ids mm_data kwargs) request_id lora_request
     = Inr (None, ids, mm_data, kwargs)"
  by simp

theorem extract_token_ids_passthrough_witness:
  "tokenizer (example_preprocessor False None None) = None
   \<and> extract_prompt_components (example_preprocessor False None None)
         (TokenIds [7, 8] (Some ()) (Some [(''k'', ())])) ''r'' (Some 1)
       = Inr (None, [7, 8], Some (), Some [(''k'', ())])
   \<and> extract_prompt_components_async (example_preprocessor False None None)
         (TokenIds [7, 8] (Some ()) (Some [(''k'', ())])) ''r'' (Some 1)
       = Inr (None, [7, 8], Some (), Some [(''k'', ())])"
  using extract_token_ids_passthrough
    [of "example_preprocessor False None None" "[7, 8]" "Some ()" "Some [(''k'', ())]"
        "''r''" "Some 1"]
  by (simp add: example_preprocessor_def)

subsection \<open>Entry points\<close>

text \<open>
  C4: for a model that is not an encoder/decoder model, \<^verbatim>\<open>preprocess\<close> and
  \<^verbatim>\<open>preprocess_async\<close> raise the \<^verbatim>\<open>ValueError\<close> "Cannot pass encoder-decoder prompt
  to decoder-only models" on every explicit encoder/decoder prompt, and return nothing.
\<close>

theorem preprocess_rejects_pair_for_decoder_only:
  assumes "\<not> is_encoder_decoder_model self"
  shows "preprocess self (ExplicitEncoderDecoder e d k) request_id lora_request adapter
           = Inl IncompatiblePromptShape
         \<and> preprocess_async self (ExplicitEncoderDecoder e d k) request_id lora_request adapter
           = Inl IncompatiblePromptShape"
  using assms by (simp add: preprocess_def preprocess_async_def)

theorem preprocess_rejects_pair_for_decoder_only_witness:
  "\<not> is_encoder_decoder_model (example_preprocessor False None (Some example_tokenizer))
   \<and> preprocess (example_preprocessor False None (Some example_tokenizer))
        (ExplicitEncoderDecoder (PlainText ''ab'') (Some (TokenIds [1] None None))
           (None :: unit mm_kwargs option) :: (unit, unit) prompt_type)
        ''r'' None None = Inl IncompatiblePromptShape
   \<and> preprocess_async (example_preprocessor False None (Some example_tokenizer))
        (ExplicitEncoderDecoder (PlainText ''ab'') (Some (TokenIds [1] None None))
           (None :: unit mm_kwargs option) :: (unit, unit) prompt_type)
        ''r'' None None = Inl IncompatiblePromptShape"
proof -
  have h: "\<not> is_encoder_decoder_model (example_preprocessor False None (Some example_tokenizer))"
    by (simp add: example_defs)
  show ?thesis
    using h preprocess_rejects_pair_for_decoder_only [OF h] by simp
qed

text \<open>
  C1: on every prompt, request id, LoRA request and prompt adapter request,
  \<^verbatim>\<open>preprocess\<close> and \<^verbatim>\<open>preprocess_async\<close> should both raise or both return the same
  inputs, also on an explicit pair with no decoder prompt or with no
  \<^verbatim>\<open>mm_processor_kwargs\<close> key. The code does not do this for an encoder/decoder model.
  On the pair of the token ids \<open>[7, 8]\<close> with no decoder prompt \<^verbatim>\<open>preprocess\<close> returns
  inputs, and \<^verbatim>\<open>preprocess_async\<close> raises \<^verbatim>\<open>UnboundLocalError\<close>: its local
  \<^verbatim>\<open>mm_processor_kwargs\<close> is assigned only inside the branch of a decoder prompt. On a
  pair with a decoder prompt and no \<^verbatim>\<open>mm_processor_kwargs\<close> key \<^verbatim>\<open>preprocess\<close> returns
  inputs with the options \<^verbatim>\<open>{}\<close>, and \<^verbatim>\<open>preprocess_async\<close> raises \<^verbatim>\<open>KeyError\<close>: it
  subscripts the prompt where the blocking method calls \<^verbatim>\<open>.get\<close> with a default.
\<close>

theorem preprocess_async_differs_on_explicit_pair:
  "preprocess (example_preprocessor True (Some 2) (Some example_tokenizer))
     (ExplicitEncoderDecoder (TokenIds [7, 8] None None) None (Some [(''k'', ())])
        :: (unit, unit) prompt_type) ''r'' None None
     = Inr (EncoderDecoderInputs [2, 0] None None [(''k'', ())] [7, 8] None None)
   \<and> preprocess_async (example_preprocessor True (Some 2) (Some example_tokenizer))
     (ExplicitEncoderDecoder (TokenIds [7, 8] None None) None (Some [(''k'', ())])
        :: (unit, unit) prompt_type) ''r'' None None
     = Inl (UnboundLocalError ''mm_processor_kwargs'')
   \<and> preprocess (example_preprocessor True (Some 2) (Some example_tokenizer))
     (ExplicitEncoderDecoder (TokenIds [7, 8] None None) (Some (TokenIds [2, 9] None None)) None
        :: (unit, unit) prompt_type) ''r'' None None
     = Inr (EncoderDecoderInputs [2, 9] None None [] [7, 8] None None)
   \<and> preprocess_async (example_preprocessor True (Some 2) (Some example_tokenizer))
     (ExplicitEncoderDecoder (TokenIds [7, 8] None None) (Some (TokenIds [2, 9] None None)) None
        :: (unit, unit) prompt_type) ''r'' None None
     = Inl (KeyError ''mm_processor_kwargs'')"
  by (simp add: preprocess_def preprocess_async_def process_encoder_decoder_prompt_def
      process_encoder_decoder_prompt_async_def build_enc_dec_llm_inputs_def
      prepare_decoder_input_ids_for_generation_def get_default_enc_dec_decoder_prompt_def
      no_decoder_comps_def as_decoder_comps_def read_local_def subscript_def example_defs)

text \<open>
  C2, as stated: for an encoder/decoder model, \<^verbatim>\<open>preprocess\<close> returns on every
  singleton prompt encoder/decoder inputs whose decoder token ids begin with the
  resolved decoder start token id. This fails. With the decoder start token id 2 and
  the BOS id 0, a prompt of token ids with a multi-modal payload gets the decoder token
  ids \<open>[0]\<close>: the payload turns \<^verbatim>\<open>force_bos\<close> off. With no tokenizer, a plain string
  raises the error of \<^verbatim>\<open>get_tokenizer_group\<close>, and token ids fail the assertion on
  the BOS id.
\<close>

theorem preprocess_singleton_decoder_start_counterexample:
  "get_decoder_start_token_id (example_preprocessor True (Some 2) (Some example_tokenizer)) = Some 2
   \<and> preprocess (example_preprocessor True (Some 2) (Some example_tokenizer))
       (Singleton (TokenIds [7, 8] (Some ()) None) :: (unit, unit) prompt_type) ''r'' None None
     = Inr (EncoderDecoderInputs [0] None None [] [7, 8] None (Some ()))
   \<and> preprocess (example_preprocessor True (Some 2) None)
       (Singleton (PlainText ''ab'') :: (unit, unit) prompt_type) ''r'' None None
     = Inl TokenizerUnavailable
   \<and> preprocess (example_preprocessor True (Some 2) None)
       (Singleton (TokenIds [7, 8] None None) :: (unit, unit) prompt_type) ''r'' None None
     = Inl MissingBosToken"
  by (simp add: preprocess_def process_encoder_decoder_prompt_def build_enc_dec_llm_inputs_def
      prepare_decoder_input_ids_for_generation_def get_default_enc_dec_decoder_prompt_def
      no_decoder_comps_def tokenize_prompt_def example_defs)

text \<open>
  C2, amended: for an encoder/decoder model and a singleton prompt whose components
  are extracted, with the decoder start token id resolved to \<open>s\<close> and the BOS id to
  \<open>b\<close>, \<^verbatim>\<open>preprocess\<close> returns encoder/decoder inputs, whatever the LoRA request and
  the prompt adapter request. Their decoder token ids are \<open>[s, b]\<close> when the prompt has
  no multi-modal payload and \<open>b \<noteq> s\<close>, and \<open>[b]\<close> otherwise. So they begin with \<open>s\<close>
  when the prompt has no payload; and when the model configuration has no
  \<^verbatim>\<open>decoder_start_token_id\<close>, \<open>s\<close> is \<open>b\<close> and they begin with the BOS id.
\<close>

theorem preprocess_singleton_decoder_start:
  assumes enc_dec: "is_encoder_decoder_model self"
    and comps: "extract_prompt_components self sp request_id None = Inr (text, ids, mm_data, kwargs)"
    and hf: "hf_config (model_config self) = Some hf"
    and start: "get_decoder_start_token_id self = Some s"
    and bos: "get_bos_token_id self None = Some b"
  shows "\<exists>dec. preprocess self (Singleton sp) request_id lora_request adapter
                 = Inr (EncoderDecoderInputs dec None None
                          (case kwargs of None \<Rightarrow> [] | Some k \<Rightarrow> k) ids text mm_data)
           \<and> dec = (if mm_data = None \<and> b \<noteq> s then [s, b] else [b])
           \<and> (mm_data = None \<longrightarrow> hd dec = s)
           \<and> (decoder_start_token_id hf = None \<longrightarrow> s = b \<and> hd dec = b)"
proof -
  have "process_encoder_decoder_prompt self (Singleton sp) request_id
          = Inr (EncoderDecoderInputs (if mm_data = None \<and> b \<noteq> s then [s, b] else [b])
                    None None (case kwargs of None \<Rightarrow> [] | Some k \<Rightarrow> k) ids text mm_data)"
    unfolding process_encoder_decoder_prompt_Singleton_Inr
    using comps prepare_decoder_input_ids_None [OF start bos] by simp
  moreover have "decoder_start_token_id hf = None \<longrightarrow> s = b"
    using enc_dec hf start bos by (auto simp: get_decoder_start_token_id_def)
  ultimately show ?thesis
    using enc_dec by (auto simp: preprocess_def)
qed

theorem preprocess_singleton_decoder_start_witness:
  "is_encoder_decoder_model (example_preprocessor True (Some 2) (Some example_tokenizer))
   \<and> extract_prompt_components (example_preprocessor True (Some 2) (Some example_tokenizer))
        (PlainText ''ab'' :: (unit, unit) singleton_prompt) ''r'' None
       = Inr (Some ''ab'', [97, 98], None, None)
   \<and> get_decoder_start_token_id (example_preprocessor True (Some 2) (Some example_tokenizer)) = Some 2
   \<and> get_bos_token_id (example_preprocessor True (Some 2) (Some example_tokenizer)) None = Some 0
   \<and> preprocess (example_preprocessor True (Some 2) (Some example_tokenizer))
        (Singleton (PlainText ''ab'') :: (unit, unit) prompt_type) ''r'' (Some 1)
        (Some \<lparr>prompt_adapter_num_virtual_tokens = 3\<rparr>)
       = Inr (EncoderDecoderInputs [2, 0] None None [] [97, 98] (Some ''ab'') None)
   \<and> get_decoder_start_token_id (example_preprocessor True None (Some example_tokenizer)) = Some 0
   \<and> preprocess (example_preprocessor True None (Some example_tokenizer))
        (Singleton (TokenIds [7, 8] (Some ()) None) :: (unit, unit) prompt_type) ''r'' None None
       = Inr (EncoderDecoderInputs [0] None None [] [7, 8] None (Some ()))"
proof -
  let ?a = "example_preprocessor True (Some 2) (Some example_tokenizer)"
  let ?b = "example_preprocessor True None (Some example_tokenizer)"
  have a1: "is_encoder_decoder_model ?a" by (simp add: example_defs)
  have a2: "extract_prompt_components ?a (PlainText ''ab'' :: (unit, unit) singleton_prompt) ''r'' None
              = Inr (Some ''ab'', [97, 98], None, None)"
    by (simp add: tokenize_prompt_def example_defs)
  have a3: "hf_config (model_config ?a) = Some \<lparr>decoder_start_token_id = Some 2\<rparr>"
    by (simp add: example_defs)
  have a4: "get_decoder_start_token_id ?a = Some 2" by (simp add: example_defs)
  have a5: "get_bos_token_id ?a None = Some 0" by (simp add: example_defs)
  have b1: "is_encoder_decoder_model ?b" by (simp add: example_defs)
  have b2: "extract_prompt_components ?b (TokenIds [7, 8] (Some ()) None :: (unit, unit) singleton_prompt) ''r'' None
              = Inr (None, [7, 8], Some (), None)"
    by simp
  have b3: "hf_config (model_config ?b) = Some \<lparr>decoder_start_token_id = None\<rparr>"
    by (simp add: example_defs)
  have b4: "get_decoder_start_token_id ?b = Some 0" by (simp add: example_defs)
  have b5: "get_bos_token_id ?b None = Some 0" by (simp add: example_defs)
  have a: "preprocess ?a (Singleton (PlainText ''ab'') :: (unit, unit) prompt_type) ''r'' (Some 1)
             (Some \<lparr>prompt_adapter_num_virtual_tokens = 3\<rparr>)
           = Inr (EncoderDecoderInputs [2, 0] None None [] [97, 98] (Some ''ab'') None)"
    using preprocess_singleton_decoder_start [OF a1 a2 a3 a4 a5] by simp
  have b: "preprocess ?b (Singleton (TokenIds [7, 8] (Some ()) None) :: (unit, unit) prompt_type)
             ''r'' None None
           = Inr (EncoderDecoderInputs [0] None None [] [7, 8] None (Some ()))"
    using preprocess_singleton_decoder_start [OF b1 b2 b3 b4 b5] by simp
  from a1 a2 a4 a5 a b4 b show ?thesis by simp
qed

text \<open>
  C9: whenever \<^verbatim>\<open>preprocess\<close> returns, the \<^verbatim>\<open>prompt_token_ids\<close> of the result is a
  list, never \<^verbatim>\<open>None\<close>. For a decoder-only model it is what \<^verbatim>\<open>_apply_prompt_adapter\<close>
  returned on the extracted token ids, so the placeholder tokens alone when these are
  empty (the witness). For an encoder/decoder model it is the list that
  \<^verbatim>\<open>_prepare_decoder_input_ids_for_generation\<close> returned; the decoder token ids given to
  it are \<^verbatim>\<open>None\<close> exactly when the prompt has no decoder side, and then the list
  returned is the default decoder prompt, which is not empty.
\<close>

theorem preprocess_prompt_token_ids_present:
  assumes ok: "preprocess self p request_id lora_request adapter = Inr r"
  shows "(\<not> is_encoder_decoder_model self \<and>
            (\<exists>sp text ids mm_data kwargs.
               p = Singleton sp \<and>
               extract_prompt_components self sp request_id lora_request
                 = Inr (text, ids, mm_data, kwargs) \<and>
               r = DecoderOnlyInputs (apply_prompt_adapter ids adapter) text mm_data kwargs))
       \<or> (is_encoder_decoder_model self \<and>
            (\<exists>decoder_ids force_bos dec text kwargs encoder_ids encoder_text encoder_mm_data.
               prepare_decoder_input_ids_for_generation self decoder_ids force_bos = Inr dec \<and>
               r = EncoderDecoderInputs dec text None kwargs encoder_ids encoder_text
                     encoder_mm_data \<and>
               (decoder_ids = None \<longleftrightarrow>
                  (\<exists>sp. p = Singleton sp) \<or> (\<exists>enc k. p = ExplicitEncoderDecoder enc None k)) \<and>
               (decoder_ids = None \<longrightarrow> dec \<noteq> [])))"
proof (cases "is_encoder_decoder_model self")
  case False
  show ?thesis
  proof (cases p)
    case (Singleton sp)
    from ok False have "process_decoder_only_prompt self sp request_id lora_request adapter = Inr r"
      by (simp add: preprocess_def Singleton)
    then obtain comps where c: "extract_prompt_components self sp request_id lora_request = Inr comps"
      and r: "r = build_decoder_only_llm_inputs comps adapter"
      by (auto simp: process_decoder_only_prompt_def and_then_eq_Inr)
    obtain tx ids mm_data kwargs where comps: "comps = (tx, ids, mm_data, kwargs)"
      by (cases comps) auto
    from r have "r = DecoderOnlyInputs (apply_prompt_adapter ids adapter) tx mm_data kwargs"
      by (simp add: comps build_decoder_only_llm_inputs_def)
    with c comps False Singleton show ?thesis by blast
  next
    case (ExplicitEncoderDecoder enc d k)
    with ok False show ?thesis by (simp add: preprocess_def)
  qed
next
  case True
  with ok have run: "process_encoder_decoder_prompt self p request_id = Inr r"
    by (simp add: preprocess_def)
  have "\<exists>decoder_ids force_bos dec text kwargs encoder_ids encoder_text encoder_mm_data.
               prepare_decoder_input_ids_for_generation self decoder_ids force_bos = Inr dec \<and>
               r = EncoderDecoderInputs dec text None kwargs encoder_ids encoder_text
                     encoder_mm_data \<and>
               (decoder_ids = None \<longleftrightarrow>
                  (\<exists>sp. p = Singleton sp) \<or> (\<exists>enc k. p = ExplicitEncoderDecoder enc None k)) \<and>
               (decoder_ids = None \<longrightarrow> dec \<noteq> [])"
  proof (cases p)
    case (Singleton sp)
    from run obtain tx ids mm kw dec where
      pr: "prepare_decoder_input_ids_for_generation self None (mm = None) = Inr dec"
      and r: "r = EncoderDecoderInputs dec None None (case kw of None \<Rightarrow> [] | Some k \<Rightarrow> k) ids tx mm"
      unfolding Singleton process_encoder_decoder_prompt_Singleton_Inr by blast
    have "(None :: int list option) = None \<longleftrightarrow>
           (\<exists>sp. p = Singleton sp) \<or> (\<exists>enc k. p = ExplicitEncoderDecoder enc None k)"
      using Singleton by simp
    with pr r prepare_decoder_input_ids_None_nonempty [OF pr] show ?thesis by blast
  next
    case (ExplicitEncoderDecoder enc d k)
    show ?thesis
    proof (cases d)
      case None
      from run obtain tx ids mm kw dec where
        pr: "prepare_decoder_input_ids_for_generation self None (mm = None) = Inr dec"
        and r: "r = EncoderDecoderInputs dec None None (case k of None \<Rightarrow> [] | Some k \<Rightarrow> k) ids tx mm"
        unfolding ExplicitEncoderDecoder None process_encoder_decoder_prompt_pair_None_Inr
        by blast
      have "(None :: int list option) = None \<longleftrightarrow>
             (\<exists>sp. p = Singleton sp) \<or> (\<exists>enc k. p = ExplicitEncoderDecoder enc None k)"
        using ExplicitEncoderDecoder None by simp
      with pr r prepare_decoder_input_ids_None_nonempty [OF pr] show ?thesis by blast
    next
      case (Some dp)
      from run obtain tx ids mm dtext dids dec where
        pr: "prepare_decoder_input_ids_for_generation self (Some dids) (mm = None) = Inr dec"
        and r: "r = EncoderDecoderInputs dec dtext None (case k of None \<Rightarrow> [] | Some k \<Rightarrow> k) ids tx mm"
        unfolding ExplicitEncoderDecoder Some process_encoder_decoder_prompt_pair_Some_Inr
        by blast
      have "Some dids = None \<longleftrightarrow>
             (\<exists>sp. p = Singleton sp) \<or> (\<exists>enc k. p = ExplicitEncoderDecoder enc None k)"
        using ExplicitEncoderDecoder Some by simp
      moreover have "Some dids = None \<longrightarrow> dec \<noteq> []" by simp
      ultimately show ?thesis using pr r by blast
    qed
  qed
  with True show ?thesis by blast
qed

theorem preprocess_prompt_token_ids_present_witness:
  "preprocess (example_preprocessor False None (Some example_tokenizer))
     (Singleton (TokenIds [] None None) :: (unit, unit) prompt_type) ''r'' None
     (Some \<lparr>prompt_adapter_num_virtual_tokens = 3\<rparr>)
     = Inr (DecoderOnlyInputs [0, 0, 0] None None None)
   \<and> preprocess (example_preprocessor True (Some 2) (Some example_tokenizer))
     (ExplicitEncoderDecoder (TokenIds [7, 8] None None) None None :: (unit, unit) prompt_type)
     ''r'' None None
     = Inr (EncoderDecoderInputs [2, 0] None None [] [7, 8] None None)
   \<and> (\<exists>decoder_ids force_bos.
         prepare_decoder_input_ids_for_generation
           (example_preprocessor True (Some 2) (Some example_tokenizer)) decoder_ids force_bos
           = Inr [2, 0])"
proof -
  let ?a = "example_preprocessor False None (Some example_tokenizer)"
  let ?b = "example_preprocessor True (Some 2) (Some example_tokenizer)"
  have a: "preprocess ?a (Singleton (TokenIds [] None None) :: (unit, unit) prompt_type) ''r'' None
             (Some \<lparr>prompt_adapter_num_virtual_tokens = 3\<rparr>)
           = Inr (DecoderOnlyInputs [0, 0, 0] None None None)"
    by (simp add: preprocess_def process_decoder_only_prompt_def build_decoder_only_llm_inputs_def
        apply_prompt_adapter_def numeral_3_eq_3 example_defs)
  have b: "preprocess ?b
             (ExplicitEncoderDecoder (TokenIds [7, 8] None None) None None :: (unit, unit) prompt_type)
             ''r'' None None
           = Inr (EncoderDecoderInputs [2, 0] None None [] [7, 8] None None)"
    by (simp add: preprocess_def process_encoder_decoder_prompt_def build_enc_dec_llm_inputs_def
        prepare_decoder_input_ids_for_generation_def get_default_enc_dec_decoder_prompt_def
        no_decoder_comps_def example_defs)
  have enc: "is_encoder_decoder_model ?b" by (simp add: example_defs)
  from preprocess_prompt_token_ids_present [OF b] enc
  have "\<exists>decoder_ids force_bos.
          prepare_decoder_input_ids_for_generation ?b decoder_ids force_bos = Inr [2, 0]"
    by auto
  with a b show ?thesis by simp
qed

text \<open>
  C10: for an encoder/decoder model the result of \<^verbatim>\<open>preprocess\<close> is the same for
  every LoRA request and every prompt adapter request. When it returns, the encoder
  token ids are the ones extracted from the encoder prompt with no LoRA request, with
  nothing put in front. The decoder token ids are the default decoder prompt, alone or
  after the decoder start token, when there is no decoder prompt; and otherwise the
  ones extracted from the decoder prompt with no LoRA request, as they are or after the
  decoder start token. No placeholder token of a prompt adapter is in either. In the
  witness the LoRA request 1 and a prompt adapter of 3 virtual tokens change nothing
  for the encoder/decoder model, while they shift and pad the token ids of a
  decoder-only model.
\<close>

theorem preprocess_enc_dec_ignores_adapters:
  assumes enc_dec: "is_encoder_decoder_model self"
  shows "preprocess self p request_id lora_request adapter
           = preprocess self p request_id lora_request' adapter'
       \<and> (\<forall>r. preprocess self p request_id lora_request adapter = Inr r \<longrightarrow>
            (\<exists>enc text ids mm_data kwargs.
               (p = Singleton enc \<or> (\<exists>d k. p = ExplicitEncoderDecoder enc d k)) \<and>
               extract_prompt_components self enc request_id None
                 = Inr (text, ids, mm_data, kwargs) \<and>
               encoder_prompt_token_ids r = ids) \<and>
            (((\<exists>sp. p = Singleton sp) \<or> (\<exists>enc k. p = ExplicitEncoderDecoder enc None k)) \<and>
               (\<exists>s b. get_decoder_start_token_id self = Some s \<and>
                  get_bos_token_id self None = Some b \<and>
                  (prompt_token_ids r = [b] \<or> prompt_token_ids r = [s, b]))
             \<or> (\<exists>enc d k text ids mm_data kwargs.
                  p = ExplicitEncoderDecoder enc (Some d) k \<and>
                  extract_prompt_components self d request_id None
                    = Inr (text, ids, mm_data, kwargs) \<and>
                  (prompt_token_ids r = ids \<or>
                   (\<exists>s. get_decoder_start_token_id self = Some s \<and>
                      prompt_token_ids r = s # ids)))))"
proof -
  have same: "preprocess self p request_id l a = process_encoder_decoder_prompt self p request_id"
    for l a
    using enc_dec by (simp add: preprocess_def)
  have inv: "(\<exists>enc text ids mm_data kwargs.
               (p = Singleton enc \<or> (\<exists>d k. p = ExplicitEncoderDecoder enc d k)) \<and>
               extract_prompt_components self enc request_id None
                 = Inr (text, ids, mm_data, kwargs) \<and>
               encoder_prompt_token_ids r = ids) \<and>
            (((\<exists>sp. p = Singleton sp) \<or> (\<exists>enc k. p = ExplicitEncoderDecoder enc None k)) \<and>
               (\<exists>s b. get_decoder_start_token_id self = Some s \<and>
                  get_bos_token_id self None = Some b \<and>
                  (prompt_token_ids r = [b] \<or> prompt_token_ids r = [s, b]))
             \<or> (\<exists>enc d k text ids mm_data kwargs.
                  p = ExplicitEncoderDecoder enc (Some d) k \<and>
                  extract_prompt_components self d request_id None
                    = Inr (text, ids, mm_data, kwargs) \<and>
                  (prompt_token_ids r = ids \<or>
                   (\<exists>s. get_decoder_start_token_id self = Some s \<and>
                      prompt_token_ids r = s # ids))))"
    (is "?E r \<and> ?D r")
    if run: "process_encoder_decoder_prompt self p request_id = Inr r" for r
  proof (cases p)
    case (Singleton sp)
    from run obtain tx ids mm kw dec where
      e: "extract_prompt_components self sp request_id None = Inr (tx, ids, mm, kw)"
      and pr: "prepare_decoder_input_ids_for_generation self None (mm = None) = Inr dec"
      and r: "r = EncoderDecoderInputs dec None None (case kw of None \<Rightarrow> [] | Some k \<Rightarrow> k) ids tx mm"
      unfolding Singleton process_encoder_decoder_prompt_Singleton_Inr by blast
    from pr obtain s b where sb: "get_decoder_start_token_id self = Some s"
      "get_bos_token_id self None = Some b" "dec = [b] \<or> dec = [s, b]"
      unfolding prepare_decoder_input_ids_None_Inr by (auto split: if_splits)
    have "?E r" using e r Singleton by auto
    moreover have "?D r" using sb r Singleton by auto
    ultimately show ?thesis ..
  next
    case (ExplicitEncoderDecoder enc d k)
    show ?thesis
    proof (cases d)
      case None
      from run obtain tx ids mm kw dec where
        e: "extract_prompt_components self enc request_id None = Inr (tx, ids, mm, kw)"
        and pr: "prepare_decoder_input_ids_for_generation self None (mm = None) = Inr dec"
        and r: "r = EncoderDecoderInputs dec None None (case k of None \<Rightarrow> [] | Some k \<Rightarrow> k) ids tx mm"
        unfolding ExplicitEncoderDecoder None process_encoder_decoder_prompt_pair_None_Inr
        by blast
      from pr obtain s b where sb: "get_decoder_start_token_id self = Some s"
        "get_bos_token_id self None = Some b" "dec = [b] \<or> dec = [s, b]"
        unfolding prepare_decoder_input_ids_None_Inr by (auto split: if_splits)
      have "?E r" using e r ExplicitEncoderDecoder by auto
      moreover have "?D r" using sb r ExplicitEncoderDecoder None by auto
      ultimately show ?thesis ..
    next
      case (Some dp)
      from run obtain tx ids mm kw dtext dids dkw dec where
        e: "extract_prompt_components self enc request_id None = Inr (tx, ids, mm, kw)"
        and d: "extract_prompt_components self dp request_id None = Inr (dtext, dids, None, dkw)"
        and pr: "prepare_decoder_input_ids_for_generation self (Some dids) (mm = None) = Inr dec"
        and r: "r = EncoderDecoderInputs dec dtext None (case k of None \<Rightarrow> [] | Some k \<Rightarrow> k) ids tx mm"
        unfolding ExplicitEncoderDecoder Some process_encoder_decoder_prompt_pair_Some_Inr
        by blast
      have "?E r" using e r ExplicitEncoderDecoder by auto
      moreover have "?D r"
        using prepare_decoder_input_ids_Some_Inr [OF pr] d r ExplicitEncoderDecoder Some by auto
      ultimately show ?thesis ..
    qed
  qed
  from same inv show ?thesis by simp
qed

theorem preprocess_enc_dec_ignores_adapters_witness:
  "is_encoder_decoder_model (example_preprocessor True (Some 2) (Some example_tokenizer))
   \<and> preprocess (example_preprocessor True (Some 2) (Some example_tokenizer))
       (ExplicitEncoderDecoder (PlainText ''ab'') (Some (TokenIds [9] None None)) None
          :: (unit, unit) prompt_type)
       ''r'' (Some 1) (Some \<lparr>prompt_adapter_num_virtual_tokens = 3\<rparr>)
     = preprocess (example_preprocessor True (Some 2) (Some example_tokenizer))
       (ExplicitEncoderDecoder (PlainText ''ab'') (Some (TokenIds [9] None None)) None)
       ''r'' None None
   \<and> preprocess (example_preprocessor True (Some 2) (Some example_tokenizer))
       (ExplicitEncoderDecoder (PlainText ''ab'') (Some (TokenIds [9] None None)) None
          :: (unit, unit) prompt_type)
       ''r'' None None
     = Inr (EncoderDecoderInputs [2, 9] None None [] [97, 98] (Some ''ab'') None)
   \<and> preprocess (example_preprocessor False (Some 2) (Some example_tokenizer))
       (Singleton (PlainText ''ab'') :: (unit, unit) prompt_type)
       ''r'' (Some 1) (Some \<lparr>prompt_adapter_num_virtual_tokens = 3\<rparr>)
     = Inr (DecoderOnlyInputs [0, 0, 0, 98, 99] (Some ''ab'') None None)"
proof -
  let ?a = "example_preprocessor True (Some 2) (Some example_tokenizer)"
  have enc: "is_encoder_decoder_model ?a" by (simp add: example_defs)
  have v: "preprocess ?a
             (ExplicitEncoderDecoder (PlainText ''ab'') (Some (TokenIds [9] None None)) None
                :: (unit, unit) prompt_type) ''r'' None None
           = Inr (EncoderDecoderInputs [2, 9] None None [] [97, 98] (Some ''ab'') None)"
    by (simp add: preprocess_def process_encoder_decoder_prompt_def build_enc_dec_llm_inputs_def
        prepare_decoder_input_ids_for_generation_def as_decoder_comps_def tokenize_prompt_def
        example_defs)
  have d: "preprocess (example_preprocessor False (Some 2) (Some example_tokenizer))
             (Singleton (PlainText ''ab'') :: (unit, unit) prompt_type)
             ''r'' (Some 1) (Some \<lparr>prompt_adapter_num_virtual_tokens = 3\<rparr>)
           = Inr (DecoderOnlyInputs [0, 0, 0, 98, 99] (Some ''ab'') None None)"
    by (simp add: preprocess_def process_decoder_only_prompt_def build_decoder_only_llm_inputs_def
        apply_prompt_adapter_def tokenize_prompt_def numeral_3_eq_3 example_defs)
  have i: "preprocess ?a
             (ExplicitEncoderDecoder (PlainText ''ab'') (Some (TokenIds [9] None None)) None
                :: (unit, unit) prompt_type)
             ''r'' (Some 1) (Some \<lparr>prompt_adapter_num_virtual_tokens = 3\<rparr>)
           = preprocess ?a
             (ExplicitEncoderDecoder (PlainText ''ab'') (Some (TokenIds [9] None None)) None)
             ''r'' None None"
    using preprocess_enc_dec_ignores_adapters [OF enc] by blast
  from enc i v d show ?thesis by simp
qed

end
